theory Spec2Isabelle
  imports Main "HOL-Library.Sublist"
begin

section \<open>Data model\<close>

text \<open>
  Modelled from the spec: \<^verbatim>\<open>types.ts\<close> is not among the sources. The phase enum is
  the one of the spec's data model (section 3); the signal vocabulary is the key set of
  \<^verbatim>\<open>SIGNAL_PATTERNS\<close> in \<^verbatim>\<open>signals.ts\<close>; the record fields are the ones
  \<^verbatim>\<open>enforcement.ts\<close> reads and writes. The source writes the phases in lower case
  (\<^verbatim>\<open>'expansion'\<close>, ...); the constructors are capitalised because the record
  fields \<open>expansion\<close>, \<open>planning\<close> and \<open>execution\<close> keep the lower-case names.
\<close>

datatype AutopilotPhase = Expansion | Planning | Execution | QA | Validation | Complete | Failed

datatype AutopilotSignal =
    EXPANSION_COMPLETE | PLANNING_COMPLETE | EXECUTION_COMPLETE | QA_COMPLETE
  | VALIDATION_COMPLETE | AUTOPILOT_COMPLETE | TRANSITION_TO_QA | TRANSITION_TO_VALIDATION

record AutopilotExpansion =
  spec_path :: "string option"

record AutopilotPlanning =
  plan_path :: "string option"

record AutopilotExecution =
  tasks_completed :: int
  tasks_total :: int

record AutopilotState =
  active :: bool
  session_id :: "string option"
  phase :: AutopilotPhase
  iteration :: int
  max_iterations :: int
  originalIdea :: string
  expansion :: AutopilotExpansion
  planning :: AutopilotPlanning
  execution :: AutopilotExecution

text \<open>
  \<^verbatim>\<open>AutopilotEnforcementResult\<close> of \<^verbatim>\<open>enforcement.ts\<close>. Its field \<^verbatim>\<open>phase\<close> is
  \<open>result_phase\<close> here and the metadata's \<^verbatim>\<open>iteration\<close> is \<open>meta_iteration\<close>, since
  \<open>phase\<close> and \<open>iteration\<close> are fields of the state record.
\<close>

record Metadata =
  meta_iteration :: int
  maxIterations :: int
  tasksCompleted :: int
  tasksTotal :: int

record AutopilotEnforcementResult =
  shouldBlock :: bool
  message :: string
  result_phase :: AutopilotPhase
  metadata :: "Metadata option"

section \<open>The world a call runs in\<close>

text \<open>
  A candidate transcript path is missing, exists but cannot be read (\<^verbatim>\<open>readFileSync\<close>
  throws), or exists with a text.
\<close>

datatype fs_entry = Missing | Unreadable | Readable string

text \<open>
  The world of one working directory: the persisted enforcement record (\<open>None\<close> when the
  file is missing or corrupt), the home directory, the files by path, and a counter of the
  persisted-state mutating operations issued so far (one per call of
  \<^verbatim>\<open>writeAutopilotState\<close>, of \<^verbatim>\<open>transitionPhase\<close> on an existing record, or
  of an operation of \<^verbatim>\<open>transition.js\<close>).
\<close>

record world =
  stateFile :: "AutopilotState option"
  home :: string
  files :: "string \<Rightarrow> fs_entry"
  writes :: nat

text \<open>
  JavaScript truthiness of an optional string: \<^verbatim>\<open>undefined\<close> and the empty string
  are falsy.
\<close>

definition truthy :: "string option \<Rightarrow> bool" where
  "truthy s = (case s of None \<Rightarrow> False | Some v \<Rightarrow> v \<noteq> [])"

section \<open>Signal detection (signals.ts)\<close>

text \<open>
  Canonicalisation of a character by a case-insensitive regular expression without the
  \<^verbatim>\<open>u\<close> flag: ASCII letters go to upper case, every other character stays.
\<close>

definition canonicalize :: "char \<Rightarrow> char" where
  "canonicalize c =
     (case map_of (zip ''abcdefghijklmnopqrstuvwxyz'' ''ABCDEFGHIJKLMNOPQRSTUVWXYZ'') c of
        None \<Rightarrow> c
      | Some u \<Rightarrow> u)"

text \<open>\<^verbatim>\<open>/MARKER/i.test(content)\<close>: the marker occurs in the content, letters compared
  without case.\<close>

definition regexp_test :: "string \<Rightarrow> string \<Rightarrow> bool" where
  "regexp_test marker content =
     sublist (map canonicalize marker) (map canonicalize content)"

fun SIGNAL_PATTERNS :: "AutopilotSignal \<Rightarrow> string option" where
  "SIGNAL_PATTERNS EXPANSION_COMPLETE = Some ''EXPANSION_COMPLETE''"
| "SIGNAL_PATTERNS PLANNING_COMPLETE = Some ''PLANNING_COMPLETE''"
| "SIGNAL_PATTERNS EXECUTION_COMPLETE = Some ''EXECUTION_COMPLETE''"
| "SIGNAL_PATTERNS QA_COMPLETE = Some ''QA_COMPLETE''"
| "SIGNAL_PATTERNS VALIDATION_COMPLETE = Some ''VALIDATION_COMPLETE''"
| "SIGNAL_PATTERNS AUTOPILOT_COMPLETE = Some ''AUTOPILOT_COMPLETE''"
| "SIGNAL_PATTERNS TRANSITION_TO_QA = Some ''TRANSITION_TO_QA''"
| "SIGNAL_PATTERNS TRANSITION_TO_VALIDATION = Some ''TRANSITION_TO_VALIDATION''"

text \<open>
  \<^verbatim>\<open>path.join\<close> of Node, as the separator-joined segments; its normalisation of
  \<^verbatim>\<open>.\<close>, \<^verbatim>\<open>..\<close> and repeated separators (library code, not of this repository) is
  not modelled.
\<close>

fun join :: "string list \<Rightarrow> string" where
  "join [] = ''.''"
| "join [x] = x"
| "join (x # y # zs) = x @ ''/'' @ join (y # zs)"

definition possiblePaths :: "string \<Rightarrow> string \<Rightarrow> string list" where
  "possiblePaths homedir sessionId =
     (let claudeDir = join [homedir, ''.claude'']
      in [join [claudeDir, ''sessions'', sessionId, ''transcript.md''],
          join [claudeDir, ''sessions'', sessionId, ''messages.json''],
          join [claudeDir, ''transcripts'', sessionId @ ''.md'']])"

definition existsSync :: "(string \<Rightarrow> fs_entry) \<Rightarrow> string \<Rightarrow> bool" where
  "existsSync fs p = (fs p \<noteq> Missing)"

text \<open>\<^verbatim>\<open>readFileSync\<close> returns the text or throws: \<open>None\<close> is the exception.\<close>

definition readFileSync :: "(string \<Rightarrow> fs_entry) \<Rightarrow> string \<Rightarrow> string option" where
  "readFileSync fs p = (case fs p of Readable content \<Rightarrow> Some content | _ \<Rightarrow> None)"

text \<open>The \<^verbatim>\<open>for\<close> loop of \<^verbatim>\<open>detectSignal\<close> over the candidate paths.\<close>

fun scanTranscripts :: "(string \<Rightarrow> fs_entry) \<Rightarrow> string \<Rightarrow> string list \<Rightarrow> bool" where
  "scanTranscripts fs pattern [] = False"
| "scanTranscripts fs pattern (transcriptPath # rest) =
     (if existsSync fs transcriptPath then
        (case readFileSync fs transcriptPath of
           Some content \<Rightarrow>
             if regexp_test pattern content then True
             else scanTranscripts fs pattern rest
         | None \<Rightarrow> scanTranscripts fs pattern rest)
      else scanTranscripts fs pattern rest)"

definition detectSignal :: "world \<Rightarrow> string \<Rightarrow> AutopilotSignal \<Rightarrow> bool" where
  "detectSignal w sessionId signal =
     (case SIGNAL_PATTERNS signal of
        None \<Rightarrow> False
      | Some pattern \<Rightarrow> scanTranscripts (files w) pattern (possiblePaths (home w) sessionId))"

fun getExpectedSignalForPhase :: "AutopilotPhase \<Rightarrow> AutopilotSignal option" where
  "getExpectedSignalForPhase Expansion = Some EXPANSION_COMPLETE"
| "getExpectedSignalForPhase Planning = Some PLANNING_COMPLETE"
| "getExpectedSignalForPhase Execution = Some EXECUTION_COMPLETE"
| "getExpectedSignalForPhase QA = Some QA_COMPLETE"
| "getExpectedSignalForPhase Validation = Some VALIDATION_COMPLETE"
| "getExpectedSignalForPhase _ = None"

section \<open>State store (state.js)\<close>

text \<open>
  Modelled from the spec: \<^verbatim>\<open>state.js\<close> is not among the sources. Section 4.1 of
  the spec gives \<^verbatim>\<open>load(dir) -> Record|absent\<close> (a missing or corrupt file is
  absent) and \<^verbatim>\<open>save(dir, record)\<close> as a full overwrite; section 4.3 gives
  \<^verbatim>\<open>setPhase(dir, newPhase)\<close> as a simple field update of the persisted record.
  One working directory is modelled (\<^verbatim>\<open>directory || process.cwd()\<close>), so the
  directory argument is the world itself.
\<close>

definition readAutopilotState :: "world \<Rightarrow> AutopilotState option" where
  "readAutopilotState w = stateFile w"

definition writeAutopilotState :: "world \<Rightarrow> AutopilotState \<Rightarrow> world" where
  "writeAutopilotState w state = w\<lparr>stateFile := Some state, writes := writes w + 1\<rparr>"

definition transitionPhase :: "world \<Rightarrow> AutopilotPhase \<Rightarrow> world" where
  "transitionPhase w newPhase =
     (case readAutopilotState w of
        None \<Rightarrow> w
      | Some state \<Rightarrow> writeAutopilotState w (state\<lparr>phase := newPhase\<rparr>))"

section \<open>Collaborators outside the sources\<close>

text \<open>
  \<^verbatim>\<open>transition.js\<close> and \<^verbatim>\<open>prompts.js\<close> are not among the sources, so their
  operations are parameters of the enforcement function. A transition operation maps the
  persisted record to the record it leaves behind; the two compound ones also report
  \<^verbatim>\<open>result.success\<close>. \<^verbatim>\<open>getPhasePrompt\<close> takes the phase, the idea, the spec
  path and the plan path.
\<close>

record collaborators =
  transitionRalphToUltraQA :: "AutopilotState option \<Rightarrow> string \<Rightarrow> bool \<times> AutopilotState option"
  transitionUltraQAToValidation :: "AutopilotState option \<Rightarrow> bool \<times> AutopilotState option"
  transitionToComplete :: "AutopilotState option \<Rightarrow> AutopilotState option"
  getPhasePrompt :: "AutopilotPhase \<Rightarrow> string \<Rightarrow> string \<Rightarrow> string \<Rightarrow> string"

text \<open>The world after a transition operation left \<open>st\<close> as the persisted record.\<close>

definition afterTransition :: "world \<Rightarrow> AutopilotState option \<Rightarrow> world" where
  "afterTransition w st = w\<lparr>stateFile := st, writes := writes w + 1\<rparr>"

section \<open>Enforcement (enforcement.ts)\<close>

fun getNextPhase :: "AutopilotPhase \<Rightarrow> AutopilotPhase option" where
  "getNextPhase Expansion = Some Planning"
| "getNextPhase Planning = Some Execution"
| "getNextPhase Execution = Some QA"
| "getNextPhase QA = Some Validation"
| "getNextPhase Validation = Some Complete"
| "getNextPhase _ = None"

text \<open>Decimal rendering of an integer, as a template literal prints it.\<close>

function show_nat :: "nat \<Rightarrow> string" where
  "show_nat n =
     (if n < 10 then [''0123456789'' ! n]
      else show_nat (n div 10) @ [''0123456789'' ! (n mod 10)])"
  by pat_completeness auto
termination
  by (relation "measure id") auto

declare show_nat.simps [simp del]

definition show_int :: "int \<Rightarrow> string" where
  "show_int i = (if i < 0 then ''-'' @ show_nat (nat (- i)) else show_nat (nat i))"

fun phase_name :: "AutopilotPhase \<Rightarrow> string" where
  "phase_name Expansion = ''expansion''"
| "phase_name Planning = ''planning''"
| "phase_name Execution = ''execution''"
| "phase_name QA = ''qa''"
| "phase_name Validation = ''validation''"
| "phase_name Complete = ''complete''"
| "phase_name Failed = ''failed''"

definition toUpperCase :: "string \<Rightarrow> string" where
  "toUpperCase s = map canonicalize s"

text \<open>\<^verbatim>\<open>a || b\<close> on an optional string.\<close>

definition or_default :: "string option \<Rightarrow> string \<Rightarrow> string" where
  "or_default a b = (case a of None \<Rightarrow> b | Some v \<Rightarrow> if v = [] then b else v)"

definition nl :: string where
  "nl = [CHR 0x0A]"

definition continuationPrompt :: "AutopilotState \<Rightarrow> string \<Rightarrow> string" where
  "continuationPrompt state phasePrompt =
     ''<autopilot-continuation>'' @ nl @ nl @
     ''[AUTOPILOT - PHASE: '' @ toUpperCase (phase_name (phase state)) @ '' | ITERATION '' @
       show_int (iteration state) @ ''/'' @ show_int (max_iterations state) @ '']'' @ nl @ nl @
     ''Your previous response did not signal phase completion. Continue working on the current phase.'' @ nl @ nl @
     phasePrompt @ nl @ nl @
     ''IMPORTANT: When the phase is complete, output the appropriate signal:'' @ nl @
     ''- Expansion: EXPANSION_COMPLETE'' @ nl @
     ''- Planning: PLANNING_COMPLETE'' @ nl @
     ''- Execution: EXECUTION_COMPLETE'' @ nl @
     ''- QA: QA_COMPLETE'' @ nl @
     ''- Validation: AUTOPILOT_COMPLETE'' @ nl @ nl @
     ''</autopilot-continuation>'' @ nl @ nl @ ''---'' @ nl @ nl"

text \<open>
  The result \<^verbatim>\<open>generateContinuationPrompt\<close> builds (lines 151 to 188) from the
  record whose iteration it has already incremented.
\<close>

definition continuationResult :: "collaborators \<Rightarrow> AutopilotState \<Rightarrow> AutopilotEnforcementResult" where
  "continuationResult deps state =
     (let phasePrompt = getPhasePrompt deps (phase state) (originalIdea state)
            (or_default (spec_path (expansion state)) ''.omc/autopilot/spec.md'')
            (or_default (plan_path (planning state)) ''.omc/plans/autopilot-impl.md'')
      in \<lparr>shouldBlock = True,
          message = continuationPrompt state phasePrompt,
          result_phase = phase state,
          metadata = Some \<lparr>meta_iteration = iteration state,
                            maxIterations = max_iterations state,
                            tasksCompleted = tasks_completed (execution state),
                            tasksTotal = tasks_total (execution state)\<rparr>\<rparr>)"

text \<open>
  \<^verbatim>\<open>generateContinuationPrompt\<close>: the iteration is incremented on the record it was
  given, that record is saved, and the result is built from it.
\<close>

definition generateContinuationPrompt ::
  "collaborators \<Rightarrow> AutopilotState \<Rightarrow> world \<Rightarrow> world \<times> AutopilotEnforcementResult" where
  "generateContinuationPrompt deps state0 w =
     (let state = state0\<lparr>iteration := iteration state0 + 1\<rparr>;
          w' = writeAutopilotState w state
      in (w', continuationResult deps state))"

definition maxIterationsResult :: "AutopilotState \<Rightarrow> AutopilotEnforcementResult" where
  "maxIterationsResult state =
     \<lparr>shouldBlock = False,
      message = ''[AUTOPILOT STOPPED] Max iterations ('' @ show_int (max_iterations state) @
                '') reached. Consider reviewing progress.'',
      result_phase = Failed,
      metadata = None\<rparr>"

definition completeResult :: AutopilotEnforcementResult where
  "completeResult =
     \<lparr>shouldBlock = False,
      message = ''[AUTOPILOT COMPLETE] All phases finished successfully!'',
      result_phase = Complete,
      metadata = None\<rparr>"

definition failedResult :: AutopilotEnforcementResult where
  "failedResult =
     \<lparr>shouldBlock = False,
      message = ''[AUTOPILOT FAILED] Session ended in failure state.'',
      result_phase = Failed,
      metadata = None\<rparr>"

text \<open>
  Lines 128 to 137 of \<^verbatim>\<open>checkAutopilot\<close>: after a transition the record is read
  again; the continuation is generated from the reloaded record, or from the old one when
  nothing can be read.
\<close>

definition continueAfterTransition ::
  "collaborators \<Rightarrow> AutopilotState \<Rightarrow> world \<Rightarrow> world \<times> AutopilotEnforcementResult option" where
  "continueAfterTransition deps state w =
     (case readAutopilotState w of
        Some newState \<Rightarrow> apsnd Some (generateContinuationPrompt deps newState w)
      | None \<Rightarrow> apsnd Some (generateContinuationPrompt deps state w))"

text \<open>
  The session-binding guard of line 68,
  \<^verbatim>\<open>state.session_id && sessionId && state.session_id !== sessionId\<close>.
\<close>

definition sessionMismatch :: "AutopilotState \<Rightarrow> string option \<Rightarrow> bool" where
  "sessionMismatch state sessionId =
     (truthy (session_id state) \<and> truthy sessionId \<and> session_id state \<noteq> sessionId)"

text \<open>
  \<^verbatim>\<open>checkAutopilot(sessionId?, directory?)\<close>: the world after the call and the result
  (\<open>None\<close> is \<^verbatim>\<open>null\<close>).
\<close>

definition checkAutopilot ::
  "collaborators \<Rightarrow> string option \<Rightarrow> world \<Rightarrow> world \<times> AutopilotEnforcementResult option" where
  "checkAutopilot deps sessionId w =
     (case readAutopilotState w of
        None \<Rightarrow> (w, None)
      | Some state \<Rightarrow>
          if \<not> active state then (w, None)
          else if sessionMismatch state sessionId then (w, None)
          else if iteration state \<ge> max_iterations state
            then (transitionPhase w Failed, Some (maxIterationsResult state))
          else if phase state = Complete then (w, Some completeResult)
          else if phase state = Failed then (w, Some failedResult)
          else
            (case (getExpectedSignalForPhase (phase state), sessionId) of
               (Some expectedSignal, Some sid) \<Rightarrow>
                 if sid \<noteq> [] \<and> detectSignal w sid expectedSignal then
                   (case getNextPhase (phase state) of
                      Some nextPhase \<Rightarrow>
                        if phase state = Execution \<and> nextPhase = QA then
                          (case transitionRalphToUltraQA deps (readAutopilotState w) sid of
                             (success, st) \<Rightarrow>
                               if \<not> success
                               then apsnd Some (generateContinuationPrompt deps state (afterTransition w st))
                               else continueAfterTransition deps state (afterTransition w st))
                        else if phase state = QA \<and> nextPhase = Validation then
                          (case transitionUltraQAToValidation deps (readAutopilotState w) of
                             (success, st) \<Rightarrow>
                               if \<not> success
                               then apsnd Some (generateContinuationPrompt deps state (afterTransition w st))
                               else continueAfterTransition deps state (afterTransition w st))
                        else if nextPhase = Complete then
                          (afterTransition w (transitionToComplete deps (readAutopilotState w)),
                           Some completeResult)
                        else continueAfterTransition deps state (transitionPhase w nextPhase)
                    | None \<Rightarrow> apsnd Some (generateContinuationPrompt deps state w))
                 else apsnd Some (generateContinuationPrompt deps state w)
             | _ \<Rightarrow> apsnd Some (generateContinuationPrompt deps state w)))"

text \<open>
  The condition of line 101, \<^verbatim>\<open>expectedSignal && sessionId && detectSignal(sessionId,
  expectedSignal)\<close>, for a record in phase \<open>p\<close>.
\<close>

definition signalDetected :: "world \<Rightarrow> string option \<Rightarrow> AutopilotPhase \<Rightarrow> bool" where
  "signalDetected w sessionId p =
     (case (getExpectedSignalForPhase p, sessionId) of
        (Some expectedSignal, Some sid) \<Rightarrow> sid \<noteq> [] \<and> detectSignal w sid expectedSignal
      | _ \<Rightarrow> False)"

text \<open>\<open>n\<close> calls of \<^verbatim>\<open>checkAutopilot\<close> in a row, each on the world the last one left.\<close>

primrec repeatCheck :: "nat \<Rightarrow> collaborators \<Rightarrow> string option \<Rightarrow> world \<Rightarrow> world" where
  "repeatCheck 0 deps sessionId w = w"
| "repeatCheck (Suc n) deps sessionId w =
     repeatCheck n deps sessionId (fst (checkAutopilot deps sessionId w))"

text \<open>
  The contract the spec gives the compound transitions (sections 4.3 and 8): a transition
  that reports success has made the persisted phase the next phase.
\<close>

definition transitionsAdvance :: "collaborators \<Rightarrow> bool" where
  "transitionsAdvance deps =
     ((\<forall>st sid st'. transitionRalphToUltraQA deps st sid = (True, Some st') \<longrightarrow> phase st' = QA) \<and>
      (\<forall>st st'. transitionUltraQAToValidation deps st = (True, Some st') \<longrightarrow> phase st' = Validation))"

section \<open>The decision procedure as the spec words it\<close>

text \<open>
  Section 4.4 of the spec, steps 1 to 7, with the last case of step 6 as written there:
  "persist the new phase and re-run this whole decision against the freshly reloaded
  record". The re-run is a recursive call; the fuel bounds the number of re-runs, and
  \<open>None\<close> is running out of it.
\<close>

fun spec_check ::
  "nat \<Rightarrow> collaborators \<Rightarrow> string option \<Rightarrow> world \<Rightarrow> (world \<times> AutopilotEnforcementResult option) option" where
  "spec_check 0 deps sessionId w = None"
| "spec_check (Suc fuel) deps sessionId w =
     (case readAutopilotState w of
        None \<Rightarrow> Some (w, None)
      | Some state \<Rightarrow>
          if \<not> active state then Some (w, None)
          else if sessionMismatch state sessionId then Some (w, None)
          else if iteration state \<ge> max_iterations state
            then Some (transitionPhase w Failed, Some (maxIterationsResult state))
          else if phase state = Complete then Some (w, Some completeResult)
          else if phase state = Failed then Some (w, Some failedResult)
          else if signalDetected w sessionId (phase state) then
            (case getNextPhase (phase state) of
               None \<Rightarrow> Some (apsnd Some (generateContinuationPrompt deps state w))
             | Some nextPhase \<Rightarrow>
                 if phase state = Execution then
                   (case transitionRalphToUltraQA deps (readAutopilotState w) (case sessionId of Some sid \<Rightarrow> sid | None \<Rightarrow> []) of
                      (success, st) \<Rightarrow>
                        if \<not> success
                        then Some (apsnd Some (generateContinuationPrompt deps state (afterTransition w st)))
                        else spec_check fuel deps sessionId (afterTransition w st))
                 else if phase state = QA then
                   (case transitionUltraQAToValidation deps (readAutopilotState w) of
                      (success, st) \<Rightarrow>
                        if \<not> success
                        then Some (apsnd Some (generateContinuationPrompt deps state (afterTransition w st)))
                        else spec_check fuel deps sessionId (afterTransition w st))
                 else if nextPhase = Complete then
                   Some (afterTransition w (transitionToComplete deps (readAutopilotState w)),
                         Some completeResult)
                 else spec_check fuel deps sessionId (transitionPhase w nextPhase))
          else Some (apsnd Some (generateContinuationPrompt deps state w)))"

section \<open>Concrete runs\<close>

text \<open>
  The record of the spec's scenario: phase execution, iteration 3 of 50, bound to session
  \<^verbatim>\<open>s1\<close>.
\<close>

definition scenarioState :: AutopilotState where
  "scenarioState =
     \<lparr>active = True, session_id = Some ''s1'', phase = Execution, iteration = 3,
      max_iterations = 50, originalIdea = ''build a todo app'',
      expansion = \<lparr>spec_path = None\<rparr>, planning = \<lparr>plan_path = None\<rparr>,
      execution = \<lparr>tasks_completed = 2, tasks_total = 5\<rparr>\<rparr>"

text \<open>
  Files of session \<^verbatim>\<open>s1\<close>: the first candidate exists but cannot be read, the second
  holds the marker of execution (in mixed case), the third is missing. Session
  \<^verbatim>\<open>s3\<close> has only the third candidate, with the markers of expansion and planning.
  No other session has a transcript.
\<close>

definition scenarioFiles :: "string \<Rightarrow> fs_entry" where
  "scenarioFiles p =
     (if p = ''/home/u/.claude/sessions/s1/transcript.md'' then Unreadable
      else if p = ''/home/u/.claude/sessions/s1/messages.json''
        then Readable ''All tasks done: Execution_Complete''
      else if p = ''/home/u/.claude/transcripts/s3.md''
        then Readable ''EXPANSION_COMPLETE, then PLANNING_COMPLETE''
      else Missing)"

definition scenarioWorld :: world where
  "scenarioWorld = \<lparr>stateFile = Some scenarioState, home = ''/home/u'', files = scenarioFiles, writes = 0\<rparr>"

text \<open>
  Modelled from the spec: collaborators whose compound transitions succeed from their own
  phase: they make the persisted phase the next one and leave every other field, the
  iteration among them, as it was (section 3: the iteration is mutated exclusively by the
  controller's continuation path).
\<close>

definition succeedingDeps :: collaborators where
  "succeedingDeps =
     \<lparr>transitionRalphToUltraQA = (\<lambda>st sid.
        case st of
          None \<Rightarrow> (False, None)
        | Some s \<Rightarrow> if phase s = Execution then (True, Some (s\<lparr>phase := QA\<rparr>)) else (False, st)),
      transitionUltraQAToValidation = (\<lambda>st.
        case st of
          None \<Rightarrow> (False, None)
        | Some s \<Rightarrow> if phase s = QA then (True, Some (s\<lparr>phase := Validation\<rparr>)) else (False, st)),
      transitionToComplete = map_option (\<lambda>s. s\<lparr>phase := Complete\<rparr>),
      getPhasePrompt = (\<lambda>p idea specPath planPath. ''Work on '' @ idea)\<rparr>"


section \<open>Facts about the definitions\<close>

lemma scanTranscripts_iff:
  "scanTranscripts fs pat ps \<longleftrightarrow>
     (\<exists>p \<in> set ps. \<exists>content.
        existsSync fs p \<and> readFileSync fs p = Some content \<and> regexp_test pat content)"
  by (induction ps) (auto simp: existsSync_def readFileSync_def split: fs_entry.splits)

lemma generateContinuationPrompt_eq:
  "generateContinuationPrompt deps state w =
     (w\<lparr>stateFile := Some (state\<lparr>iteration := iteration state + 1\<rparr>), writes := writes w + 1\<rparr>,
      continuationResult deps (state\<lparr>iteration := iteration state + 1\<rparr>))"
  by (simp add: generateContinuationPrompt_def writeAutopilotState_def Let_def)

lemma continuationResult_fields:
  "shouldBlock (continuationResult deps state) = True"
  "result_phase (continuationResult deps state) = phase state"
  "metadata (continuationResult deps state) =
     Some \<lparr>meta_iteration = iteration state, maxIterations = max_iterations state,
           tasksCompleted = tasks_completed (execution state),
           tasksTotal = tasks_total (execution state)\<rparr>"
  by (simp_all add: continuationResult_def Let_def)

lemma check_guarded:
  assumes "readAutopilotState w = Some state" "active state" "\<not> sessionMismatch state sessionId"
    "iteration state < max_iterations state" "phase state \<noteq> Complete" "phase state \<noteq> Failed"
  shows "checkAutopilot deps sessionId w =
     (if signalDetected w sessionId (phase state) then
        (case phase state of
           Execution \<Rightarrow>
             (case transitionRalphToUltraQA deps (Some state) (case sessionId of Some sid \<Rightarrow> sid | None \<Rightarrow> []) of
                (success, st) \<Rightarrow>
                  if \<not> success then apsnd Some (generateContinuationPrompt deps state (afterTransition w st))
                  else continueAfterTransition deps state (afterTransition w st))
         | QA \<Rightarrow>
             (case transitionUltraQAToValidation deps (Some state) of
                (success, st) \<Rightarrow>
                  if \<not> success then apsnd Some (generateContinuationPrompt deps state (afterTransition w st))
                  else continueAfterTransition deps state (afterTransition w st))
         | Validation \<Rightarrow> (afterTransition w (transitionToComplete deps (Some state)), Some completeResult)
         | Expansion \<Rightarrow> continueAfterTransition deps state (transitionPhase w Planning)
         | Planning \<Rightarrow> continueAfterTransition deps state (transitionPhase w Execution)
         | _ \<Rightarrow> apsnd Some (generateContinuationPrompt deps state w))
      else apsnd Some (generateContinuationPrompt deps state w))"
  using assms
  by (cases "phase state"; cases sessionId)
     (simp_all add: checkAutopilot_def signalDetected_def)

lemma detectSignal_cong_world:
  "files w' = files w \<Longrightarrow> home w' = home w \<Longrightarrow> detectSignal w' sid e = detectSignal w sid e"
  by (simp add: detectSignal_def split: option.splits)

lemma signalDetected_cong_world:
  "files w' = files w \<Longrightarrow> home w' = home w \<Longrightarrow> signalDetected w' sessionId p = signalDetected w sessionId p"
  by (simp add: signalDetected_def detectSignal_def split: option.splits)

lemma continueAfterTransition_Some:
  "readAutopilotState w = Some newState \<Longrightarrow>
   continueAfterTransition deps state w =
     (w\<lparr>stateFile := Some (newState\<lparr>iteration := iteration newState + 1\<rparr>), writes := writes w + 1\<rparr>,
      Some (continuationResult deps (newState\<lparr>iteration := iteration newState + 1\<rparr>)))"
  by (simp add: continueAfterTransition_def generateContinuationPrompt_eq)

lemma continueAfterTransition_None:
  "readAutopilotState w = None \<Longrightarrow>
   continueAfterTransition deps state w =
     (w\<lparr>stateFile := Some (state\<lparr>iteration := iteration state + 1\<rparr>), writes := writes w + 1\<rparr>,
      Some (continuationResult deps (state\<lparr>iteration := iteration state + 1\<rparr>)))"
  by (simp add: continueAfterTransition_def generateContinuationPrompt_eq)

lemma readAutopilotState_afterTransition:
  "readAutopilotState (afterTransition w st) = st"
  by (simp add: readAutopilotState_def afterTransition_def)

lemma transitionPhase_Some:
  "readAutopilotState w = Some state \<Longrightarrow>
   transitionPhase w p = w\<lparr>stateFile := Some (state\<lparr>phase := p\<rparr>), writes := writes w + 1\<rparr>"
  by (simp add: transitionPhase_def writeAutopilotState_def)

lemma scenario_detects_execution:
  "detectSignal scenarioWorld ''s1'' EXECUTION_COMPLETE"
  by (simp add: detectSignal_def possiblePaths_def scenarioWorld_def scenarioFiles_def
      existsSync_def readFileSync_def regexp_test_def canonicalize_def sublist_Cons_right)

lemma scenario_read:
  "readAutopilotState scenarioWorld = Some scenarioState"
  by (simp add: readAutopilotState_def scenarioWorld_def)

lemma succeeding_ralph:
  "transitionRalphToUltraQA succeedingDeps (Some scenarioState) ''s1'' =
     (True, Some (scenarioState\<lparr>phase := QA\<rparr>))"
  by (simp add: succeedingDeps_def scenarioState_def)

lemma sessionMismatch_update:
  "sessionMismatch (state\<lparr>iteration := i\<rparr>) sessionId = sessionMismatch state sessionId"
  "sessionMismatch (state\<lparr>phase := p\<rparr>) sessionId = sessionMismatch state sessionId"
  by (simp_all add: sessionMismatch_def)

lemma check_Some_guards:
  assumes "snd (checkAutopilot deps sessionId w) \<noteq> None" and "readAutopilotState w = Some state"
  shows "active state \<and> \<not> sessionMismatch state sessionId"
  using assms by (auto simp: checkAutopilot_def split: if_splits)

lemma check_Some_reads:
  assumes "snd (checkAutopilot deps sessionId w) \<noteq> None"
  shows "\<exists>state. readAutopilotState w = Some state"
  using assms by (cases "readAutopilotState w") (simp_all add: checkAutopilot_def)

lemma check_terminal:
  assumes "readAutopilotState w = Some state" and "active state"
    and "\<not> sessionMismatch state sessionId" and "iteration state < max_iterations state"
  shows "phase state = Complete \<Longrightarrow> checkAutopilot deps sessionId w = (w, Some completeResult)"
    and "phase state = Failed \<Longrightarrow> checkAutopilot deps sessionId w = (w, Some failedResult)"
  using assms by (simp_all add: checkAutopilot_def)

lemma check_max:
  assumes "readAutopilotState w = Some state" and "active state"
    and "\<not> sessionMismatch state sessionId" and "max_iterations state \<le> iteration state"
  shows "checkAutopilot deps sessionId w =
          (w\<lparr>stateFile := Some (state\<lparr>phase := Failed\<rparr>), writes := writes w + 1\<rparr>,
           Some (maxIterationsResult state))"
  using assms by (simp add: checkAutopilot_def transitionPhase_Some)

lemma succeeding_advance:
  "transitionsAdvance succeedingDeps"
  by (auto simp: transitionsAdvance_def succeedingDeps_def split: option.splits if_splits)

lemma scenario_check_succeeding:
  "checkAutopilot succeedingDeps (Some ''s1'') scenarioWorld =
     (scenarioWorld\<lparr>stateFile := Some (scenarioState\<lparr>phase := QA, iteration := 4\<rparr>), writes := 2\<rparr>,
      Some (continuationResult succeedingDeps (scenarioState\<lparr>phase := QA, iteration := 4\<rparr>)))"
proof -
  have h2: "active scenarioState" and h3: "phase scenarioState = Execution"
    and h4: "iteration scenarioState = 3"
    and lt: "iteration scenarioState < max_iterations scenarioState"
    and nm: "\<not> sessionMismatch scenarioState (Some ''s1'')"
    by (simp_all add: scenarioState_def sessionMismatch_def)
  have nt: "phase scenarioState \<noteq> Complete" "phase scenarioState \<noteq> Failed"
    by (simp_all add: h3)
  have sd: "signalDetected scenarioWorld (Some ''s1'') (phase scenarioState)"
    using scenario_detects_execution by (simp add: signalDetected_def h3)
  show ?thesis
    using check_guarded [OF scenario_read h2 nm lt nt, of succeedingDeps] sd succeeding_ralph
    by (simp add: h3 h4 continueAfterTransition_def generateContinuationPrompt_eq
        readAutopilotState_def afterTransition_def scenarioWorld_def)
qed

lemma check_no_signal:
  assumes "readAutopilotState w = Some state" and "active state"
    and "\<not> sessionMismatch state sessionId" and "iteration state < max_iterations state"
    and "phase state \<noteq> Complete" and "phase state \<noteq> Failed"
    and "\<not> signalDetected w sessionId (phase state)"
  shows "checkAutopilot deps sessionId w =
          (w\<lparr>stateFile := Some (state\<lparr>iteration := iteration state + 1\<rparr>), writes := writes w + 1\<rparr>,
           Some (continuationResult deps (state\<lparr>iteration := iteration state + 1\<rparr>)))"
  using check_guarded [OF assms(1-6), of deps] assms(7)
  by (simp add: generateContinuationPrompt_eq)

lemma scenario_no_qa_signal:
  "\<not> detectSignal scenarioWorld ''s1'' QA_COMPLETE"
  by (simp add: detectSignal_def possiblePaths_def scenarioWorld_def scenarioFiles_def
      existsSync_def readFileSync_def regexp_test_def canonicalize_def sublist_Cons_right)

lemma scenario_s3_signals:
  "detectSignal scenarioWorld ''s3'' EXPANSION_COMPLETE"
  "detectSignal scenarioWorld ''s3'' PLANNING_COMPLETE"
  "\<not> detectSignal scenarioWorld ''s3'' EXECUTION_COMPLETE"
  by (simp_all add: detectSignal_def possiblePaths_def scenarioWorld_def scenarioFiles_def
      existsSync_def readFileSync_def regexp_test_def canonicalize_def sublist_Cons_right)

lemma readAutopilotState_transitionPhase:
  "readAutopilotState w = Some state \<Longrightarrow>
   readAutopilotState (transitionPhase w p) = Some (state\<lparr>phase := p\<rparr>)"
  by (simp add: transitionPhase_Some) (simp add: readAutopilotState_def)

lemma signalDetected_transitionPhase:
  "signalDetected (transitionPhase w p) sessionId q = signalDetected w sessionId q"
  by (rule signalDetected_cong_world)
     (simp_all add: transitionPhase_def writeAutopilotState_def split: option.splits)

lemma check_simple_edge:
  assumes "readAutopilotState w = Some state" and "active state"
    and "\<not> sessionMismatch state sessionId"
    and "iteration state < max_iterations state"
    and "phase state = Expansion \<or> phase state = Planning"
    and "signalDetected w sessionId (phase state)"
    and "getNextPhase (phase state) = Some nextPhase"
  shows "checkAutopilot deps sessionId w =
           (w\<lparr>stateFile := Some (state\<lparr>phase := nextPhase, iteration := iteration state + 1\<rparr>),
              writes := writes w + 2\<rparr>,
            Some (continuationResult deps (state\<lparr>phase := nextPhase, iteration := iteration state + 1\<rparr>)))"
proof -
  from assms(5) have nt: "phase state \<noteq> Complete" "phase state \<noteq> Failed"
    by auto
  have r1: "readAutopilotState (transitionPhase w nextPhase) = Some (state\<lparr>phase := nextPhase\<rparr>)"
    using assms(1) by (rule readAutopilotState_transitionPhase)
  have "checkAutopilot deps sessionId w = continueAfterTransition deps state (transitionPhase w nextPhase)"
    using check_guarded [OF assms(1) assms(2) assms(3) assms(4) nt, of deps] assms(5) assms(6) assms(7)
    by auto
  also have "\<dots> =
           (w\<lparr>stateFile := Some (state\<lparr>phase := nextPhase, iteration := iteration state + 1\<rparr>),
              writes := writes w + 2\<rparr>,
            Some (continuationResult deps (state\<lparr>phase := nextPhase, iteration := iteration state + 1\<rparr>)))"
    unfolding continueAfterTransition_Some [OF r1]
    using assms(1) by (simp add: transitionPhase_Some)
  finally show ?thesis .
qed

lemma scenario_s3_detected:
  assumes "files w = scenarioFiles" and "home w = ''/home/u''"
  shows "signalDetected w (Some ''s3'') Expansion"
    and "signalDetected w (Some ''s3'') Planning"
    and "\<not> signalDetected w (Some ''s3'') Execution"
proof -
  have d: "detectSignal w sid e = detectSignal scenarioWorld sid e" for sid e
    using assms by (intro detectSignal_cong_world) (simp_all add: scenarioWorld_def)
  show "signalDetected w (Some ''s3'') Expansion"
    and "signalDetected w (Some ''s3'') Planning"
    and "\<not> signalDetected w (Some ''s3'') Execution"
    using scenario_s3_signals by (simp_all add: signalDetected_def d)
qed

section \<open>Claims about signal detection\<close>

text \<open>
  Claim C8. \<^verbatim>\<open>detectSignal(sessionId, signal)\<close> returns true if and only if at least
  one of the candidate transcript locations of the session exists, can be read, and its
  full text matches the signal's case-insensitive marker. A candidate that exists but
  cannot be read contributes nothing and raises nothing (the function is total), and the
  loop run over the candidates in any other order gives the same answer.
\<close>

theorem detectSignal_iff_some_candidate_matches:
  "(detectSignal w sessionId signal \<longleftrightarrow>
      (\<exists>p \<in> set (possiblePaths (home w) sessionId). \<exists>content.
         existsSync (files w) p \<and> readFileSync (files w) p = Some content \<and>
         (\<exists>marker. SIGNAL_PATTERNS signal = Some marker \<and> regexp_test marker content)))
   \<and> (\<forall>marker candidates.
         SIGNAL_PATTERNS signal = Some marker \<longrightarrow>
         set candidates = set (possiblePaths (home w) sessionId) \<longrightarrow>
         scanTranscripts (files w) marker candidates = detectSignal w sessionId signal)"
proof -
  obtain marker where m: "SIGNAL_PATTERNS signal = Some marker"
    by (cases signal) simp_all
  show ?thesis
    using m by (simp add: detectSignal_def scanTranscripts_iff)
qed

theorem detectSignal_iff_some_candidate_matches_witness:
  "files scenarioWorld ''/home/u/.claude/sessions/s1/transcript.md'' = Unreadable
   \<and> detectSignal scenarioWorld ''s1'' EXECUTION_COMPLETE
   \<and> (\<exists>p \<in> set (possiblePaths (home scenarioWorld) ''s1''). \<exists>content.
         existsSync (files scenarioWorld) p \<and> readFileSync (files scenarioWorld) p = Some content \<and>
         (\<exists>marker. SIGNAL_PATTERNS EXECUTION_COMPLETE = Some marker \<and> regexp_test marker content))
   \<and> scanTranscripts (files scenarioWorld) ''EXECUTION_COMPLETE''
         (rev (possiblePaths (home scenarioWorld) ''s1''))
   \<and> \<not> detectSignal scenarioWorld ''s1'' QA_COMPLETE
   \<and> \<not> detectSignal scenarioWorld ''s2'' EXECUTION_COMPLETE"
proof -
  have u: "files scenarioWorld ''/home/u/.claude/sessions/s1/transcript.md'' = Unreadable"
    by (simp add: scenarioWorld_def scenarioFiles_def)
  have d: "detectSignal scenarioWorld ''s1'' EXECUTION_COMPLETE"
    by (simp add: detectSignal_def possiblePaths_def scenarioWorld_def scenarioFiles_def
        existsSync_def readFileSync_def regexp_test_def canonicalize_def sublist_Cons_right)
  have n1: "\<not> detectSignal scenarioWorld ''s1'' QA_COMPLETE"
    by (simp add: detectSignal_def possiblePaths_def scenarioWorld_def scenarioFiles_def
        existsSync_def readFileSync_def regexp_test_def canonicalize_def sublist_Cons_right)
  have n2: "\<not> detectSignal scenarioWorld ''s2'' EXECUTION_COMPLETE"
    by (simp add: detectSignal_def possiblePaths_def scenarioWorld_def scenarioFiles_def
        existsSync_def readFileSync_def)
  have s: "set (rev (possiblePaths (home scenarioWorld) ''s1'')) = set (possiblePaths (home scenarioWorld) ''s1'')"
    by simp
  note t = detectSignal_iff_some_candidate_matches [of scenarioWorld "''s1''" EXECUTION_COMPLETE]
  from t d have e: "\<exists>p \<in> set (possiblePaths (home scenarioWorld) ''s1''). \<exists>content.
         existsSync (files scenarioWorld) p \<and> readFileSync (files scenarioWorld) p = Some content \<and>
         (\<exists>marker. SIGNAL_PATTERNS EXECUTION_COMPLETE = Some marker \<and> regexp_test marker content)"
    by blast
  from t s d have r: "scanTranscripts (files scenarioWorld) ''EXECUTION_COMPLETE''
         (rev (possiblePaths (home scenarioWorld) ''s1''))"
    by (metis SIGNAL_PATTERNS.simps(3))
  from u d e r n1 n2 show ?thesis by blast
qed

section \<open>Claims about the enforcement decision\<close>

text \<open>
  Claim C1. For every active record whose iteration has reached \<open>max_iterations\<close> and that
  passes the session-binding check, \<^verbatim>\<open>checkAutopilot\<close> makes the persisted phase
  \<open>Failed\<close> and returns the stop notice with \<open>shouldBlock = False\<close> and phase \<open>Failed\<close>.
  Nothing is assumed about the phase, the files or the collaborators: the branch comes
  before signal detection and before the complete and failed short-circuits.
\<close>

theorem check_max_iterations_forces_failed:
  assumes "readAutopilotState w = Some state" and "active state"
    and "\<not> sessionMismatch state sessionId"
    and "max_iterations state \<le> iteration state"
  shows "checkAutopilot deps sessionId (w\<lparr>files := fs\<rparr>) =
           (w\<lparr>files := fs, stateFile := Some (state\<lparr>phase := Failed\<rparr>), writes := writes w + 1\<rparr>,
            Some (maxIterationsResult state))
         \<and> shouldBlock (maxIterationsResult state) = False
         \<and> result_phase (maxIterationsResult state) = Failed"
  using assms
  by (simp add: checkAutopilot_def readAutopilotState_def transitionPhase_def
      writeAutopilotState_def maxIterationsResult_def)

theorem check_max_iterations_forces_failed_witness:
  "readAutopilotState (scenarioWorld\<lparr>stateFile := Some (scenarioState\<lparr>iteration := 50\<rparr>)\<rparr>)
     = Some (scenarioState\<lparr>iteration := 50\<rparr>)
   \<and> active (scenarioState\<lparr>iteration := 50\<rparr>)
   \<and> \<not> sessionMismatch (scenarioState\<lparr>iteration := 50\<rparr>) (Some ''s1'')
   \<and> max_iterations (scenarioState\<lparr>iteration := 50\<rparr>) \<le> iteration (scenarioState\<lparr>iteration := 50\<rparr>)
   \<and> signalDetected (scenarioWorld\<lparr>stateFile := Some (scenarioState\<lparr>iteration := 50\<rparr>)\<rparr>)
        (Some ''s1'') (phase (scenarioState\<lparr>iteration := 50\<rparr>))
   \<and> checkAutopilot succeedingDeps (Some ''s1'')
        (scenarioWorld\<lparr>stateFile := Some (scenarioState\<lparr>iteration := 50\<rparr>)\<rparr>) =
        (scenarioWorld\<lparr>stateFile := Some (scenarioState\<lparr>iteration := 50, phase := Failed\<rparr>), writes := 1\<rparr>,
         Some \<lparr>shouldBlock = False,
               message = ''[AUTOPILOT STOPPED] Max iterations (50) reached. Consider reviewing progress.'',
               result_phase = Failed, metadata = None\<rparr>)"
proof -
  let ?S = "scenarioState\<lparr>iteration := 50\<rparr>"
  let ?W = "scenarioWorld\<lparr>stateFile := Some ?S\<rparr>"
  have h1: "readAutopilotState ?W = Some ?S"
    by (simp add: readAutopilotState_def)
  have h2: "active ?S"
    by (simp add: scenarioState_def)
  have h3: "\<not> sessionMismatch ?S (Some ''s1'')"
    by (simp add: sessionMismatch_def scenarioState_def)
  have h4: "max_iterations ?S \<le> iteration ?S"
    by (simp add: scenarioState_def)
  have h5: "signalDetected ?W (Some ''s1'') (phase ?S)"
    by (simp add: signalDetected_def scenarioState_def detectSignal_def possiblePaths_def
        scenarioWorld_def scenarioFiles_def existsSync_def readFileSync_def regexp_test_def
        canonicalize_def sublist_Cons_right)
  have m: "maxIterationsResult ?S =
      \<lparr>shouldBlock = False,
       message = ''[AUTOPILOT STOPPED] Max iterations (50) reached. Consider reviewing progress.'',
       result_phase = Failed, metadata = None\<rparr>"
    by (simp add: maxIterationsResult_def scenarioState_def show_int_def show_nat.simps)
  from check_max_iterations_forces_failed [OF h1 h2 h3 h4, of succeedingDeps scenarioFiles]
  have "checkAutopilot succeedingDeps (Some ''s1'') ?W =
        (scenarioWorld\<lparr>stateFile := Some (scenarioState\<lparr>iteration := 50, phase := Failed\<rparr>), writes := 1\<rparr>,
         Some (maxIterationsResult ?S))"
    by (simp add: scenarioWorld_def)
  with h1 h2 h3 h4 h5 m show ?thesis by simp
qed

text \<open>
  Claim C6. When the record is bound to a session and the caller gives a session id that
  differs from it, \<^verbatim>\<open>checkAutopilot\<close> returns \<^verbatim>\<open>null\<close> and the world, the
  persisted record in it, is exactly as before. A bound or given session id is a truthy
  one, as line 68 tests it.
\<close>

theorem check_foreign_session_absent_unmodified:
  assumes "readAutopilotState w = Some state"
    and "truthy (session_id state)" and "truthy sessionId" and "session_id state \<noteq> sessionId"
  shows "checkAutopilot deps sessionId w = (w, None)"
  using assms by (simp add: checkAutopilot_def sessionMismatch_def)

theorem check_foreign_session_absent_unmodified_witness:
  "readAutopilotState scenarioWorld = Some scenarioState
   \<and> truthy (session_id scenarioState) \<and> truthy (Some ''s2'')
   \<and> session_id scenarioState \<noteq> Some ''s2''
   \<and> checkAutopilot succeedingDeps (Some ''s2'') scenarioWorld = (scenarioWorld, None)"
proof -
  have h1: "readAutopilotState scenarioWorld = Some scenarioState"
    by (simp add: readAutopilotState_def scenarioWorld_def)
  have h2: "truthy (session_id scenarioState)"
    by (simp add: truthy_def scenarioState_def)
  have h3: "truthy (Some ''s2'')"
    by (simp add: truthy_def)
  have h4: "session_id scenarioState \<noteq> Some ''s2''"
    by (simp add: scenarioState_def)
  from check_foreign_session_absent_unmodified [OF h1 h2 h3 h4, of succeedingDeps] h1 h2 h3 h4
  show ?thesis by simp
qed

text \<open>
  Claim C9. For an active record bound to a session, in a non-terminal phase and below the
  iteration ceiling, a call without a session id (\<^verbatim>\<open>undefined\<close> or the empty string)
  is not stopped by the session-binding guard and never reaches signal detection: whatever
  the files hold and whatever the collaborators do, it saves the record with the iteration
  incremented, the phase unchanged, and returns the continuation of the current phase
  with \<open>shouldBlock = True\<close>.
\<close>

theorem check_without_session_id_continues:
  assumes "readAutopilotState w = Some state" and "active state"
    and "truthy (session_id state)" and "\<not> truthy sessionId"
    and "phase state \<noteq> Complete" and "phase state \<noteq> Failed"
    and "iteration state < max_iterations state"
  shows "checkAutopilot deps sessionId (w\<lparr>files := fs\<rparr>) =
           (w\<lparr>files := fs, stateFile := Some (state\<lparr>iteration := iteration state + 1\<rparr>),
              writes := writes w + 1\<rparr>,
            Some (continuationResult deps (state\<lparr>iteration := iteration state + 1\<rparr>)))
         \<and> shouldBlock (continuationResult deps (state\<lparr>iteration := iteration state + 1\<rparr>)) = True
         \<and> result_phase (continuationResult deps (state\<lparr>iteration := iteration state + 1\<rparr>)) = phase state"
proof -
  have nm: "\<not> sessionMismatch state sessionId"
    using assms(4) by (simp add: sessionMismatch_def)
  have nd: "\<not> signalDetected (w\<lparr>files := fs\<rparr>) sessionId (phase state)"
    using assms(4) by (auto simp: signalDetected_def truthy_def split: option.splits)
  have r: "readAutopilotState (w\<lparr>files := fs\<rparr>) = Some state"
    using assms(1) by (simp add: readAutopilotState_def)
  show ?thesis
    using check_guarded [OF r assms(2) nm assms(7) assms(5) assms(6), of deps] nd
    by (simp add: generateContinuationPrompt_eq continuationResult_fields)
qed

theorem check_without_session_id_continues_witness:
  "readAutopilotState scenarioWorld = Some scenarioState \<and> active scenarioState
   \<and> truthy (session_id scenarioState) \<and> \<not> truthy None
   \<and> phase scenarioState \<noteq> Complete \<and> phase scenarioState \<noteq> Failed
   \<and> iteration scenarioState < max_iterations scenarioState
   \<and> detectSignal scenarioWorld ''s1'' EXECUTION_COMPLETE
   \<and> checkAutopilot succeedingDeps None scenarioWorld =
       (scenarioWorld\<lparr>stateFile := Some (scenarioState\<lparr>iteration := 4\<rparr>), writes := 1\<rparr>,
        Some (continuationResult succeedingDeps (scenarioState\<lparr>iteration := 4\<rparr>)))
   \<and> shouldBlock (continuationResult succeedingDeps (scenarioState\<lparr>iteration := 4\<rparr>)) = True
   \<and> result_phase (continuationResult succeedingDeps (scenarioState\<lparr>iteration := 4\<rparr>)) = Execution"
proof -
  have h1: "readAutopilotState scenarioWorld = Some scenarioState"
    by (simp add: readAutopilotState_def scenarioWorld_def)
  have h2: "active scenarioState" and h3: "truthy (session_id scenarioState)"
    and h5: "phase scenarioState \<noteq> Complete" and h6: "phase scenarioState \<noteq> Failed"
    and h7: "iteration scenarioState < max_iterations scenarioState"
    by (simp_all add: scenarioState_def truthy_def)
  have h4: "\<not> truthy None"
    by (simp add: truthy_def)
  have d: "detectSignal scenarioWorld ''s1'' EXECUTION_COMPLETE"
    by (simp add: detectSignal_def possiblePaths_def scenarioWorld_def scenarioFiles_def
        existsSync_def readFileSync_def regexp_test_def canonicalize_def sublist_Cons_right)
  have i: "iteration scenarioState = 3" and p: "phase scenarioState = Execution"
    by (simp_all add: scenarioState_def)
  have w: "scenarioWorld\<lparr>files := scenarioFiles\<rparr> = scenarioWorld" and n: "writes scenarioWorld = 0"
    by (simp_all add: scenarioWorld_def)
  from check_without_session_id_continues [OF h1 h2 h3 h4 h5 h6 h7, of succeedingDeps scenarioFiles]
    h1 h2 h3 h4 h5 h6 h7 d
  show ?thesis by (simp add: i p w n)
qed



text \<open>
  Claim C3, as amended. For the record of the scenario (phase execution, iteration 3 of
  50, bound to \<^verbatim>\<open>s1\<close>), with \<^verbatim>\<open>EXECUTION_COMPLETE\<close> detected for \<^verbatim>\<open>s1\<close>
  and a successful execution-to-qa transition that left a record in phase qa, the
  persisted phase after the call is qa and the result has \<open>shouldBlock = True\<close>, phase
  qa, and as iteration the reloaded record's iteration plus one. No branch of
  \<^verbatim>\<open>checkAutopilot\<close> resets the counter, so a transition that leaves the iteration
  at 3 gives 4, not 1.
\<close>

theorem check_execution_to_qa_continues_from_reloaded_record:
  assumes "readAutopilotState w = Some state" and "active state"
    and "phase state = Execution" and "iteration state = 3" and "max_iterations state = 50"
    and "session_id state = Some ''s1''"
    and "detectSignal w ''s1'' EXECUTION_COMPLETE"
    and "transitionRalphToUltraQA deps (Some state) ''s1'' = (True, Some newState)"
    and "phase newState = QA"
  shows "stateFile (fst (checkAutopilot deps (Some ''s1'') w)) =
           Some (newState\<lparr>iteration := iteration newState + 1\<rparr>)
         \<and> phase (newState\<lparr>iteration := iteration newState + 1\<rparr>) = QA
         \<and> snd (checkAutopilot deps (Some ''s1'') w) =
             Some (continuationResult deps (newState\<lparr>iteration := iteration newState + 1\<rparr>))
         \<and> shouldBlock (continuationResult deps (newState\<lparr>iteration := iteration newState + 1\<rparr>)) = True
         \<and> result_phase (continuationResult deps (newState\<lparr>iteration := iteration newState + 1\<rparr>)) = QA
         \<and> map_option meta_iteration
             (metadata (continuationResult deps (newState\<lparr>iteration := iteration newState + 1\<rparr>))) =
             Some (iteration newState + 1)"
proof -
  have nm: "\<not> sessionMismatch state (Some ''s1'')"
    using assms(6) by (simp add: sessionMismatch_def)
  have lt: "iteration state < max_iterations state"
    using assms(4) assms(5) by simp
  have nt: "phase state \<noteq> Complete" "phase state \<noteq> Failed"
    using assms(3) by simp_all
  have sd: "signalDetected w (Some ''s1'') (phase state)"
    using assms(3) assms(7) by (simp add: signalDetected_def)
  show ?thesis
    using check_guarded [OF assms(1) assms(2) nm lt nt, of deps] sd assms(3) assms(8) assms(9)
    by (simp add: continueAfterTransition_Some readAutopilotState_afterTransition
        continuationResult_fields)
qed

theorem check_execution_to_qa_continues_from_reloaded_record_witness:
  "readAutopilotState scenarioWorld = Some scenarioState \<and> active scenarioState
   \<and> phase scenarioState = Execution \<and> iteration scenarioState = 3
   \<and> max_iterations scenarioState = 50 \<and> session_id scenarioState = Some ''s1''
   \<and> detectSignal scenarioWorld ''s1'' EXECUTION_COMPLETE
   \<and> transitionRalphToUltraQA succeedingDeps (Some scenarioState) ''s1'' =
        (True, Some (scenarioState\<lparr>phase := QA\<rparr>))
   \<and> phase (scenarioState\<lparr>phase := QA\<rparr>) = QA
   \<and> stateFile (fst (checkAutopilot succeedingDeps (Some ''s1'') scenarioWorld)) =
        Some (scenarioState\<lparr>phase := QA, iteration := 4\<rparr>)
   \<and> snd (checkAutopilot succeedingDeps (Some ''s1'') scenarioWorld) =
        Some (continuationResult succeedingDeps (scenarioState\<lparr>phase := QA, iteration := 4\<rparr>))
   \<and> metadata (continuationResult succeedingDeps (scenarioState\<lparr>phase := QA, iteration := 4\<rparr>)) =
        Some \<lparr>meta_iteration = 4, maxIterations = 50, tasksCompleted = 2, tasksTotal = 5\<rparr>"
proof -
  have h2: "active scenarioState" and h3: "phase scenarioState = Execution"
    and h4: "iteration scenarioState = 3" and h5: "max_iterations scenarioState = 50"
    and h6: "session_id scenarioState = Some ''s1''"
    by (simp_all add: scenarioState_def)
  have h9: "phase (scenarioState\<lparr>phase := QA\<rparr>) = QA"
    by simp
  have md: "metadata (continuationResult succeedingDeps (scenarioState\<lparr>phase := QA, iteration := 4\<rparr>)) =
        Some \<lparr>meta_iteration = 4, maxIterations = 50, tasksCompleted = 2, tasksTotal = 5\<rparr>"
    by (simp add: continuationResult_fields scenarioState_def)
  from check_execution_to_qa_continues_from_reloaded_record
    [OF scenario_read h2 h3 h4 h5 h6 scenario_detects_execution succeeding_ralph h9]
    scenario_read h2 h3 h4 h5 h6 scenario_detects_execution succeeding_ralph md
  show ?thesis by simp
qed

theorem check_execution_to_qa_iteration_counterexample:
  "readAutopilotState scenarioWorld = Some scenarioState \<and> active scenarioState
   \<and> phase scenarioState = Execution \<and> iteration scenarioState = 3
   \<and> max_iterations scenarioState = 50 \<and> session_id scenarioState = Some ''s1''
   \<and> detectSignal scenarioWorld ''s1'' EXECUTION_COMPLETE
   \<and> transitionRalphToUltraQA succeedingDeps (Some scenarioState) ''s1'' =
        (True, Some (scenarioState\<lparr>phase := QA\<rparr>))
   \<and> map_option phase (stateFile (fst (checkAutopilot succeedingDeps (Some ''s1'') scenarioWorld))) = Some QA
   \<and> map_option shouldBlock (snd (checkAutopilot succeedingDeps (Some ''s1'') scenarioWorld)) = Some True
   \<and> map_option result_phase (snd (checkAutopilot succeedingDeps (Some ''s1'') scenarioWorld)) = Some QA
   \<and> map_option metadata (snd (checkAutopilot succeedingDeps (Some ''s1'') scenarioWorld)) =
        Some (Some \<lparr>meta_iteration = 4, maxIterations = 50, tasksCompleted = 2, tasksTotal = 5\<rparr>)
   \<and> map_option metadata (snd (checkAutopilot succeedingDeps (Some ''s1'') scenarioWorld)) \<noteq>
        Some (Some \<lparr>meta_iteration = 1, maxIterations = 50, tasksCompleted = 2, tasksTotal = 5\<rparr>)"
proof -
  have h2: "active scenarioState" and h3: "phase scenarioState = Execution"
    and h4: "iteration scenarioState = 3" and h5: "max_iterations scenarioState = 50"
    and h6: "session_id scenarioState = Some ''s1''"
    by (simp_all add: scenarioState_def)
  have nm: "\<not> sessionMismatch scenarioState (Some ''s1'')"
    by (simp add: sessionMismatch_def h6)
  have lt: "iteration scenarioState < max_iterations scenarioState"
    by (simp add: h4 h5)
  have nt: "phase scenarioState \<noteq> Complete" "phase scenarioState \<noteq> Failed"
    by (simp_all add: h3)
  have sd: "signalDetected scenarioWorld (Some ''s1'') (phase scenarioState)"
    using scenario_detects_execution by (simp add: signalDetected_def h3)
  have c: "checkAutopilot succeedingDeps (Some ''s1'') scenarioWorld =
      (scenarioWorld\<lparr>stateFile := Some (scenarioState\<lparr>phase := QA, iteration := 4\<rparr>), writes := 2\<rparr>,
       Some (continuationResult succeedingDeps (scenarioState\<lparr>phase := QA, iteration := 4\<rparr>)))"
    using check_guarded [OF scenario_read h2 nm lt nt, of succeedingDeps] sd succeeding_ralph
    by (simp add: h3 h4 continueAfterTransition_def generateContinuationPrompt_eq
        readAutopilotState_def afterTransition_def scenarioWorld_def)
  show ?thesis
    using scenario_read h2 h3 h4 h5 h6 scenario_detects_execution succeeding_ralph
    by (simp add: c continuationResult_fields) (simp add: scenarioState_def)
qed

text \<open>
  Claim C10. Every result \<^verbatim>\<open>checkAutopilot\<close> returns has \<open>shouldBlock = False\<close> if and
  only if its phase is complete or failed: the three notices carry a terminal phase and do
  not block, and every continuation blocks and carries one of the five working phases.
  The continuation after a successful compound transition is built from the record that
  operation left, so the statement is for collaborators that keep the spec's contract
  (a successful transition lands on the next phase).
\<close>

theorem check_blocks_iff_phase_not_terminal:
  assumes "transitionsAdvance deps" and "checkAutopilot deps sessionId w = (w', Some r)"
  shows "shouldBlock r = False \<longleftrightarrow> result_phase r = Complete \<or> result_phase r = Failed"
proof -
  from assms(2) have ne: "snd (checkAutopilot deps sessionId w) \<noteq> None"
    by simp
  from check_Some_reads [OF ne] obtain state where rd: "readAutopilotState w = Some state"
    by blast
  from check_Some_guards [OF ne rd] have act: "active state"
    and nm: "\<not> sessionMismatch state sessionId"
    by simp_all
  have ralph: "phase st' = QA" if "transitionRalphToUltraQA deps st sid = (True, Some st')"
    for st sid st'
    using assms(1) that unfolding transitionsAdvance_def by blast
  have ultra: "phase st' = Validation" if "transitionUltraQAToValidation deps st = (True, Some st')"
    for st st'
    using assms(1) that unfolding transitionsAdvance_def by blast
  show ?thesis
  proof (cases "max_iterations state \<le> iteration state")
    case True
    from check_max [OF rd act nm True, of deps] assms(2) show ?thesis
      by (auto simp: maxIterationsResult_def)
  next
    case False
    then have lt: "iteration state < max_iterations state"
      by simp
    show ?thesis
    proof (cases "phase state = Complete \<or> phase state = Failed")
      case True
      with check_terminal [OF rd act nm lt, of deps] assms(2) show ?thesis
        by (auto simp: completeResult_def failedResult_def)
    next
      case False
      then have nt: "phase state \<noteq> Complete" "phase state \<noteq> Failed"
        by simp_all
      note g = check_guarded [OF rd act nm lt nt, of deps]
      show ?thesis
      proof (cases "signalDetected w sessionId (phase state)")
        case nd: False
        with g assms(2) nt show ?thesis
          by (auto simp: generateContinuationPrompt_eq continuationResult_fields)
      next
        case sd: True
        show ?thesis
        proof (cases "phase state")
          case Expansion
          with g sd assms(2) rd show ?thesis
            by (auto simp: transitionPhase_Some continueAfterTransition_def readAutopilotState_def
                generateContinuationPrompt_eq continuationResult_fields)
        next
          case Planning
          with g sd assms(2) rd show ?thesis
            by (auto simp: transitionPhase_Some continueAfterTransition_def readAutopilotState_def
                generateContinuationPrompt_eq continuationResult_fields)
        next
          case Execution
          obtain success st where
            op: "transitionRalphToUltraQA deps (Some state) (case sessionId of Some sid \<Rightarrow> sid | None \<Rightarrow> []) = (success, st)"
            by (cases "transitionRalphToUltraQA deps (Some state) (case sessionId of Some sid \<Rightarrow> sid | None \<Rightarrow> [])")
          show ?thesis
          proof (cases "success \<and> st \<noteq> None")
            case True
            then obtain st' where st': "st = Some st'" and s: "success"
              by auto
            from ralph op st' s have "phase st' = QA"
              by simp
            with g sd Execution op st' s assms(2) show ?thesis
              by (auto simp: continueAfterTransition_Some readAutopilotState_afterTransition
                  continuationResult_fields)
          next
            case False
            with g sd Execution op assms(2) show ?thesis
              by (auto simp: continueAfterTransition_None readAutopilotState_afterTransition
                  generateContinuationPrompt_eq continuationResult_fields split: if_splits)
          qed
        next
          case QA
          obtain success st where
            op: "transitionUltraQAToValidation deps (Some state) = (success, st)"
            by (cases "transitionUltraQAToValidation deps (Some state)")
          show ?thesis
          proof (cases "success \<and> st \<noteq> None")
            case True
            then obtain st' where st': "st = Some st'" and s: "success"
              by auto
            from ultra op st' s have "phase st' = Validation"
              by simp
            with g sd QA op st' s assms(2) show ?thesis
              by (auto simp: continueAfterTransition_Some readAutopilotState_afterTransition
                  continuationResult_fields)
          next
            case False
            with g sd QA op assms(2) show ?thesis
              by (auto simp: continueAfterTransition_None readAutopilotState_afterTransition
                  generateContinuationPrompt_eq continuationResult_fields split: if_splits)
          qed
        next
          case Validation
          with g sd assms(2) show ?thesis
            by (auto simp: completeResult_def)
        next
          case Complete
          with nt show ?thesis by simp
        next
          case Failed
          with nt show ?thesis by simp
        qed
      qed
    qed
  qed
qed

theorem check_blocks_iff_phase_not_terminal_witness:
  "transitionsAdvance succeedingDeps
   \<and> checkAutopilot succeedingDeps (Some ''s1'') scenarioWorld =
       (scenarioWorld\<lparr>stateFile := Some (scenarioState\<lparr>phase := QA, iteration := 4\<rparr>), writes := 2\<rparr>,
        Some (continuationResult succeedingDeps (scenarioState\<lparr>phase := QA, iteration := 4\<rparr>)))
   \<and> result_phase (continuationResult succeedingDeps (scenarioState\<lparr>phase := QA, iteration := 4\<rparr>)) = QA
   \<and> shouldBlock (continuationResult succeedingDeps (scenarioState\<lparr>phase := QA, iteration := 4\<rparr>)) = True"
proof -
  have p: "result_phase (continuationResult succeedingDeps (scenarioState\<lparr>phase := QA, iteration := 4\<rparr>)) = QA"
    by (simp add: continuationResult_fields)
  from check_blocks_iff_phase_not_terminal [OF succeeding_advance scenario_check_succeeding] p
  have "shouldBlock (continuationResult succeedingDeps (scenarioState\<lparr>phase := QA, iteration := 4\<rparr>)) = True"
    by simp
  with succeeding_advance scenario_check_succeeding p show ?thesis
    by simp
qed

text \<open>
  Claim C7, as amended. For a call that returns a result, the number of persisted-state
  mutating operations it issues is fixed by the branch: one in the forced-failure branch
  (\<^verbatim>\<open>transitionPhase\<close>), none in the \<^verbatim>\<open>phase === 'complete'\<close> and
  \<^verbatim>\<open>phase === 'failed'\<close> short-circuits, one when validation's signal is detected
  (\<^verbatim>\<open>transitionToComplete\<close>), two when the signal of expansion, planning, execution
  or qa is detected (the transition, then the save of the continuation), and one otherwise
  (the save of the continuation).
\<close>

theorem check_mutation_count:
  assumes "readAutopilotState w = Some state"
    and "snd (checkAutopilot deps sessionId w) \<noteq> None"
  shows "writes (fst (checkAutopilot deps sessionId w)) =
           writes w +
             (if max_iterations state \<le> iteration state then 1
              else if phase state = Complete \<or> phase state = Failed then 0
              else if signalDetected w sessionId (phase state) \<and> phase state \<noteq> Validation then 2
              else 1)"
proof -
  from check_Some_guards [OF assms(2) assms(1)] have act: "active state"
    and nm: "\<not> sessionMismatch state sessionId"
    by simp_all
  show ?thesis
  proof (cases "max_iterations state \<le> iteration state")
    case True
    with check_max [OF assms(1) act nm True, of deps] show ?thesis
      by simp
  next
    case False
    then have lt: "iteration state < max_iterations state"
      by simp
    show ?thesis
    proof (cases "phase state = Complete \<or> phase state = Failed")
      case True
      with check_terminal [OF assms(1) act nm lt, of deps] False show ?thesis
        by auto
    next
      case nterm: False
      then have nt: "phase state \<noteq> Complete" "phase state \<noteq> Failed"
        by simp_all
      note g = check_guarded [OF assms(1) act nm lt nt, of deps]
      show ?thesis
      proof (cases "signalDetected w sessionId (phase state)")
        case nd: False
        with g False nt show ?thesis
          by (simp add: generateContinuationPrompt_eq)
      next
        case sd: True
        show ?thesis
        proof (cases "phase state")
          case Expansion
          with g sd False assms(1) show ?thesis
            by (simp add: transitionPhase_Some continueAfterTransition_def readAutopilotState_def
                generateContinuationPrompt_eq)
        next
          case Planning
          with g sd False assms(1) show ?thesis
            by (simp add: transitionPhase_Some continueAfterTransition_def readAutopilotState_def
                generateContinuationPrompt_eq)
        next
          case Execution
          with g sd False show ?thesis
            by (simp add: continueAfterTransition_def readAutopilotState_def afterTransition_def
                generateContinuationPrompt_eq split: prod.splits option.splits)
        next
          case QA
          with g sd False show ?thesis
            by (simp add: continueAfterTransition_def readAutopilotState_def afterTransition_def
                generateContinuationPrompt_eq split: prod.splits option.splits)
        next
          case Validation
          with g sd False show ?thesis
            by (simp add: afterTransition_def)
        next
          case Complete
          with nt show ?thesis by simp
        next
          case Failed
          with nt show ?thesis by simp
        qed
      qed
    qed
  qed
qed

theorem check_mutation_count_witness:
  "readAutopilotState scenarioWorld = Some scenarioState
   \<and> snd (checkAutopilot succeedingDeps (Some ''s1'') scenarioWorld) \<noteq> None
   \<and> \<not> max_iterations scenarioState \<le> iteration scenarioState
   \<and> phase scenarioState = Execution
   \<and> signalDetected scenarioWorld (Some ''s1'') (phase scenarioState)
   \<and> writes (fst (checkAutopilot succeedingDeps (Some ''s1'') scenarioWorld)) = writes scenarioWorld + 2"
proof -
  have h2: "snd (checkAutopilot succeedingDeps (Some ''s1'') scenarioWorld) \<noteq> None"
    by (simp add: scenario_check_succeeding)
  have p: "phase scenarioState = Execution"
    and m: "\<not> max_iterations scenarioState \<le> iteration scenarioState"
    by (simp_all add: scenarioState_def)
  have sd: "signalDetected scenarioWorld (Some ''s1'') (phase scenarioState)"
    using scenario_detects_execution by (simp add: signalDetected_def p)
  from check_mutation_count [OF scenario_read h2] scenario_read h2 p m sd
  show ?thesis by simp
qed

text \<open>
  The short-circuits of lines 82 to 97 return the complete and the failed notice and
  leave the world, its mutation counter included, as it was.
\<close>

theorem check_terminal_phase_no_mutation_counterexample:
  "readAutopilotState (scenarioWorld\<lparr>stateFile := Some (scenarioState\<lparr>phase := Complete\<rparr>)\<rparr>) =
     Some (scenarioState\<lparr>phase := Complete\<rparr>)
   \<and> checkAutopilot succeedingDeps (Some ''s1'')
        (scenarioWorld\<lparr>stateFile := Some (scenarioState\<lparr>phase := Complete\<rparr>)\<rparr>) =
       (scenarioWorld\<lparr>stateFile := Some (scenarioState\<lparr>phase := Complete\<rparr>)\<rparr>, Some completeResult)
   \<and> writes (fst (checkAutopilot succeedingDeps (Some ''s1'')
        (scenarioWorld\<lparr>stateFile := Some (scenarioState\<lparr>phase := Complete\<rparr>)\<rparr>))) =
       writes (scenarioWorld\<lparr>stateFile := Some (scenarioState\<lparr>phase := Complete\<rparr>)\<rparr>)
   \<and> checkAutopilot succeedingDeps (Some ''s1'')
        (scenarioWorld\<lparr>stateFile := Some (scenarioState\<lparr>phase := Failed\<rparr>)\<rparr>) =
       (scenarioWorld\<lparr>stateFile := Some (scenarioState\<lparr>phase := Failed\<rparr>)\<rparr>, Some failedResult)
   \<and> writes (fst (checkAutopilot succeedingDeps (Some ''s1'')
        (scenarioWorld\<lparr>stateFile := Some (scenarioState\<lparr>phase := Failed\<rparr>)\<rparr>))) =
       writes (scenarioWorld\<lparr>stateFile := Some (scenarioState\<lparr>phase := Failed\<rparr>)\<rparr>)"
  by (simp add: checkAutopilot_def readAutopilotState_def sessionMismatch_def truthy_def
      scenarioState_def)

text \<open>
  Claim C5, as amended. For an active, non-terminal record, a caller that passes the
  session-binding guard and for whom no expected signal is detected: \<open>n\<close> calls in a
  row that stay within the iteration ceiling leave the persisted record as it was except
  for the iteration, which has grown by exactly \<open>n\<close> (by one for each call; the case
  \<open>n = 1\<close> is the single call).
\<close>

theorem repeated_checks_without_signal_increment_iteration:
  assumes "readAutopilotState w = Some state" and "active state"
    and "\<not> sessionMismatch state sessionId"
    and "phase state \<noteq> Complete" and "phase state \<noteq> Failed"
    and "iteration state + int n \<le> max_iterations state"
    and "\<not> signalDetected w sessionId (phase state)"
  shows "stateFile (repeatCheck n deps sessionId w) =
           Some (state\<lparr>iteration := iteration state + int n\<rparr>)
         \<and> phase (state\<lparr>iteration := iteration state + int n\<rparr>) = phase state"
  using assms
proof (induction n arbitrary: w state)
  case 0
  then show ?case
    by (simp add: readAutopilotState_def)
next
  case (Suc n)
  let ?state' = "state\<lparr>iteration := iteration state + 1\<rparr>"
  let ?w' = "w\<lparr>stateFile := Some ?state', writes := writes w + 1\<rparr>"
  from Suc.prems(6) have lt: "iteration state < max_iterations state"
    by simp
  have step: "fst (checkAutopilot deps sessionId w) = ?w'"
    using check_no_signal [OF Suc.prems(1) Suc.prems(2) Suc.prems(3) lt Suc.prems(4) Suc.prems(5) Suc.prems(7), of deps]
    by simp
  have r: "readAutopilotState ?w' = Some ?state'"
    by (simp add: readAutopilotState_def)
  have a: "active ?state'"
    using Suc.prems(2) by simp
  have m: "\<not> sessionMismatch ?state' sessionId"
    using Suc.prems(3) by (simp add: sessionMismatch_update)
  have p: "phase ?state' \<noteq> Complete" "phase ?state' \<noteq> Failed"
    using Suc.prems(4) Suc.prems(5) by simp_all
  have b: "iteration ?state' + int n \<le> max_iterations ?state'"
    using Suc.prems(6) by simp
  have d: "\<not> signalDetected ?w' sessionId (phase ?state')"
    using Suc.prems(7) signalDetected_cong_world [of ?w' w sessionId "phase state"] by simp
  from Suc.IH [OF r a m p b d] show ?case
    by (simp add: step add.assoc)
qed

theorem repeated_checks_without_signal_increment_iteration_witness:
  "readAutopilotState (scenarioWorld\<lparr>stateFile := Some (scenarioState\<lparr>phase := QA\<rparr>)\<rparr>) =
     Some (scenarioState\<lparr>phase := QA\<rparr>)
   \<and> active (scenarioState\<lparr>phase := QA\<rparr>)
   \<and> \<not> sessionMismatch (scenarioState\<lparr>phase := QA\<rparr>) (Some ''s1'')
   \<and> phase (scenarioState\<lparr>phase := QA\<rparr>) \<noteq> Complete
   \<and> phase (scenarioState\<lparr>phase := QA\<rparr>) \<noteq> Failed
   \<and> iteration (scenarioState\<lparr>phase := QA\<rparr>) + int 2 \<le> max_iterations (scenarioState\<lparr>phase := QA\<rparr>)
   \<and> \<not> signalDetected (scenarioWorld\<lparr>stateFile := Some (scenarioState\<lparr>phase := QA\<rparr>)\<rparr>)
         (Some ''s1'') (phase (scenarioState\<lparr>phase := QA\<rparr>))
   \<and> stateFile (repeatCheck 2 succeedingDeps (Some ''s1'')
         (scenarioWorld\<lparr>stateFile := Some (scenarioState\<lparr>phase := QA\<rparr>)\<rparr>)) =
        Some (scenarioState\<lparr>phase := QA, iteration := 5\<rparr>)
   \<and> phase (scenarioState\<lparr>phase := QA, iteration := 5\<rparr>) = QA"
proof -
  let ?S = "scenarioState\<lparr>phase := QA\<rparr>"
  let ?W = "scenarioWorld\<lparr>stateFile := Some ?S\<rparr>"
  have h1: "readAutopilotState ?W = Some ?S"
    by (simp add: readAutopilotState_def)
  have h2: "active ?S"
    and h3: "\<not> sessionMismatch ?S (Some ''s1'')"
    and h4: "phase ?S \<noteq> Complete" and h5: "phase ?S \<noteq> Failed"
    and h6: "iteration ?S + int 2 \<le> max_iterations ?S"
    and i: "iteration scenarioState = 3"
    by (simp_all add: scenarioState_def sessionMismatch_def truthy_def)
  have "\<not> signalDetected scenarioWorld (Some ''s1'') QA"
    using scenario_no_qa_signal by (simp add: signalDetected_def)
  then have h7: "\<not> signalDetected ?W (Some ''s1'') (phase ?S)"
    using signalDetected_cong_world [of ?W scenarioWorld "Some ''s1''" QA] by simp
  from repeated_checks_without_signal_increment_iteration
    [OF h1 h2 h3 h4 h5 h6 h7, of succeedingDeps]
    h1 h2 h3 h4 h5 h6 h7
  show ?thesis by (simp add: i)
qed

text \<open>
  A call from a session other than the bound one detects no signal and returns
  \<^verbatim>\<open>null\<close> at line 69: the persisted iteration stays at 3.
\<close>

theorem check_foreign_session_no_increment_counterexample:
  "readAutopilotState scenarioWorld = Some scenarioState \<and> active scenarioState
   \<and> phase scenarioState \<noteq> Complete \<and> phase scenarioState \<noteq> Failed
   \<and> iteration scenarioState < max_iterations scenarioState
   \<and> \<not> signalDetected scenarioWorld (Some ''s2'') (phase scenarioState)
   \<and> snd (checkAutopilot succeedingDeps (Some ''s2'') scenarioWorld) = None
   \<and> map_option iteration (stateFile (fst (checkAutopilot succeedingDeps (Some ''s2'') scenarioWorld))) =
        Some (iteration scenarioState)
   \<and> map_option iteration (stateFile (fst (checkAutopilot succeedingDeps (Some ''s2'') scenarioWorld))) \<noteq>
        Some (iteration scenarioState + 1)"
proof -
  have h2: "active scenarioState"
    and h4: "phase scenarioState \<noteq> Complete" and h5: "phase scenarioState \<noteq> Failed"
    and h6: "iteration scenarioState < max_iterations scenarioState"
    and m: "sessionMismatch scenarioState (Some ''s2'')"
    and p: "phase scenarioState = Execution"
    by (simp_all add: scenarioState_def sessionMismatch_def truthy_def)
  have h7: "\<not> signalDetected scenarioWorld (Some ''s2'') (phase scenarioState)"
    by (simp add: signalDetected_def p detectSignal_def possiblePaths_def scenarioWorld_def
        scenarioFiles_def existsSync_def readFileSync_def)
  have c: "checkAutopilot succeedingDeps (Some ''s2'') scenarioWorld = (scenarioWorld, None)"
    using scenario_read h2 m by (simp add: checkAutopilot_def)
  from scenario_read h2 h4 h5 h6 h7 show ?thesis
    by (simp add: c) (simp add: readAutopilotState_def)
qed

text \<open>
  Claim C2, as amended. For an active record in expansion or planning (the simple edges)
  that is past the guards and whose expected signal is detected, \<^verbatim>\<open>checkAutopilot\<close>
  persists the next phase and returns the continuation built directly from the reloaded
  record: \<open>shouldBlock = True\<close>, the new phase, the iteration incremented once. The
  decision is not run again; the result is the one the re-run of the spec's section 4.4
  gives whenever the new phase's expected signal is not detected.
\<close>

theorem check_simple_edge_continues_from_reloaded_record:
  assumes "readAutopilotState w = Some state" and "active state"
    and "\<not> sessionMismatch state sessionId"
    and "iteration state < max_iterations state"
    and "phase state = Expansion \<or> phase state = Planning"
    and "signalDetected w sessionId (phase state)"
    and "getNextPhase (phase state) = Some nextPhase"
  shows "checkAutopilot deps sessionId w =
           (w\<lparr>stateFile := Some (state\<lparr>phase := nextPhase, iteration := iteration state + 1\<rparr>),
              writes := writes w + 2\<rparr>,
            Some (continuationResult deps (state\<lparr>phase := nextPhase, iteration := iteration state + 1\<rparr>)))
         \<and> shouldBlock (continuationResult deps
               (state\<lparr>phase := nextPhase, iteration := iteration state + 1\<rparr>)) = True
         \<and> result_phase (continuationResult deps
               (state\<lparr>phase := nextPhase, iteration := iteration state + 1\<rparr>)) = nextPhase
         \<and> (\<not> signalDetected w sessionId nextPhase \<longrightarrow>
               spec_check (Suc (Suc fuel)) deps sessionId w = Some (checkAutopilot deps sessionId w))"
proof -
  from assms(5) have nt: "phase state \<noteq> Complete" "phase state \<noteq> Failed"
    by auto
  from assms(5) assms(7) have np: "nextPhase = Planning \<or> nextPhase = Execution"
    by auto
  let ?new = "state\<lparr>phase := nextPhase\<rparr>"
  let ?w1 = "transitionPhase w nextPhase"
  have r1: "readAutopilotState ?w1 = Some ?new"
    using assms(1) by (rule readAutopilotState_transitionPhase)
  have code: "checkAutopilot deps sessionId w = continueAfterTransition deps state ?w1"
    using check_guarded [OF assms(1) assms(2) assms(3) assms(4) nt, of deps] assms(5) assms(6) assms(7)
    by auto
  have cont: "continueAfterTransition deps state ?w1 =
           (w\<lparr>stateFile := Some (state\<lparr>phase := nextPhase, iteration := iteration state + 1\<rparr>),
              writes := writes w + 2\<rparr>,
            Some (continuationResult deps (state\<lparr>phase := nextPhase, iteration := iteration state + 1\<rparr>)))"
    unfolding continueAfterTransition_Some [OF r1]
    using assms(1) by (simp add: transitionPhase_Some)
  have rerun: "spec_check (Suc (Suc fuel)) deps sessionId w = Some (continueAfterTransition deps state ?w1)"
    if nd: "\<not> signalDetected w sessionId nextPhase"
  proof -
    have first: "spec_check (Suc (Suc fuel)) deps sessionId w = spec_check (Suc fuel) deps sessionId ?w1"
      using assms np by auto
    have nd1: "\<not> signalDetected ?w1 sessionId (phase ?new)"
      using nd by (simp add: signalDetected_transitionPhase)
    have second: "spec_check (Suc fuel) deps sessionId ?w1 =
        Some (apsnd Some (generateContinuationPrompt deps ?new ?w1))"
      using r1 assms(2) assms(3) assms(4) np nd1
      by (auto simp: sessionMismatch_update)
    show ?thesis
      using first second r1 by (simp add: continueAfterTransition_def)
  qed
  show ?thesis
    using code cont rerun by (simp add: continuationResult_fields)
qed

theorem check_simple_edge_continues_from_reloaded_record_witness:
  "readAutopilotState (scenarioWorld\<lparr>stateFile := Some (scenarioState\<lparr>session_id := Some ''s3'', phase := Planning\<rparr>)\<rparr>) =
     Some (scenarioState\<lparr>session_id := Some ''s3'', phase := Planning\<rparr>)
   \<and> active (scenarioState\<lparr>session_id := Some ''s3'', phase := Planning\<rparr>)
   \<and> \<not> sessionMismatch (scenarioState\<lparr>session_id := Some ''s3'', phase := Planning\<rparr>) (Some ''s3'')
   \<and> iteration (scenarioState\<lparr>session_id := Some ''s3'', phase := Planning\<rparr>) <
       max_iterations (scenarioState\<lparr>session_id := Some ''s3'', phase := Planning\<rparr>)
   \<and> phase (scenarioState\<lparr>session_id := Some ''s3'', phase := Planning\<rparr>) = Planning
   \<and> signalDetected (scenarioWorld\<lparr>stateFile := Some (scenarioState\<lparr>session_id := Some ''s3'', phase := Planning\<rparr>)\<rparr>)
         (Some ''s3'') Planning
   \<and> getNextPhase Planning = Some Execution
   \<and> \<not> signalDetected (scenarioWorld\<lparr>stateFile := Some (scenarioState\<lparr>session_id := Some ''s3'', phase := Planning\<rparr>)\<rparr>)
         (Some ''s3'') Execution
   \<and> checkAutopilot succeedingDeps (Some ''s3'')
         (scenarioWorld\<lparr>stateFile := Some (scenarioState\<lparr>session_id := Some ''s3'', phase := Planning\<rparr>)\<rparr>) =
       (scenarioWorld\<lparr>stateFile := Some (scenarioState\<lparr>session_id := Some ''s3'', phase := Execution, iteration := 4\<rparr>),
          writes := 2\<rparr>,
        Some (continuationResult succeedingDeps
          (scenarioState\<lparr>session_id := Some ''s3'', phase := Execution, iteration := 4\<rparr>)))
   \<and> spec_check (Suc (Suc 0)) succeedingDeps (Some ''s3'')
         (scenarioWorld\<lparr>stateFile := Some (scenarioState\<lparr>session_id := Some ''s3'', phase := Planning\<rparr>)\<rparr>) =
       Some (scenarioWorld\<lparr>stateFile := Some (scenarioState\<lparr>session_id := Some ''s3'', phase := Execution, iteration := 4\<rparr>),
          writes := 2\<rparr>,
        Some (continuationResult succeedingDeps
          (scenarioState\<lparr>session_id := Some ''s3'', phase := Execution, iteration := 4\<rparr>)))"
proof -
  let ?S = "scenarioState\<lparr>session_id := Some ''s3'', phase := Planning\<rparr>"
  let ?W = "scenarioWorld\<lparr>stateFile := Some ?S\<rparr>"
  have h1: "readAutopilotState ?W = Some ?S"
    by (simp add: readAutopilotState_def)
  have h2: "active ?S" and h3: "\<not> sessionMismatch ?S (Some ''s3'')"
    and h4: "iteration ?S < max_iterations ?S"
    and i: "iteration scenarioState = 3"
    by (simp_all add: scenarioState_def sessionMismatch_def)
  have p: "phase ?S = Planning"
    by simp
  have h5: "phase ?S = Expansion \<or> phase ?S = Planning"
    by simp
  have fw: "files ?W = scenarioFiles" "home ?W = ''/home/u''" and n: "writes scenarioWorld = 0"
    by (simp_all add: scenarioWorld_def)
  have sd: "signalDetected ?W (Some ''s3'') Planning"
    and nd: "\<not> signalDetected ?W (Some ''s3'') Execution"
    using scenario_s3_detected [OF fw] by simp_all
  have h6: "signalDetected ?W (Some ''s3'') (phase ?S)"
    using sd by simp
  have h7: "getNextPhase (phase ?S) = Some Execution"
    by simp
  from check_simple_edge_continues_from_reloaded_record
    [OF h1 h2 h3 h4 h5 h6 h7, of succeedingDeps 0] nd
    h1 h2 h3 h4 sd
  show ?thesis by (simp add: i n)
qed

text \<open>
  With the markers of expansion and planning both in the transcript, the code stops at
  planning, while the decision re-run on the reloaded record, as the spec words it, moves
  on to execution.
\<close>

theorem check_simple_edge_not_rerun_counterexample:
  "readAutopilotState (scenarioWorld\<lparr>stateFile := Some (scenarioState\<lparr>session_id := Some ''s3'', phase := Expansion\<rparr>)\<rparr>) =
     Some (scenarioState\<lparr>session_id := Some ''s3'', phase := Expansion\<rparr>)
   \<and> active (scenarioState\<lparr>session_id := Some ''s3'', phase := Expansion\<rparr>)
   \<and> \<not> sessionMismatch (scenarioState\<lparr>session_id := Some ''s3'', phase := Expansion\<rparr>) (Some ''s3'')
   \<and> iteration (scenarioState\<lparr>session_id := Some ''s3'', phase := Expansion\<rparr>) <
       max_iterations (scenarioState\<lparr>session_id := Some ''s3'', phase := Expansion\<rparr>)
   \<and> signalDetected (scenarioWorld\<lparr>stateFile := Some (scenarioState\<lparr>session_id := Some ''s3'', phase := Expansion\<rparr>)\<rparr>)
         (Some ''s3'') Expansion
   \<and> getNextPhase Expansion = Some Planning
   \<and> checkAutopilot succeedingDeps (Some ''s3'')
         (scenarioWorld\<lparr>stateFile := Some (scenarioState\<lparr>session_id := Some ''s3'', phase := Expansion\<rparr>)\<rparr>) =
       (scenarioWorld\<lparr>stateFile := Some (scenarioState\<lparr>session_id := Some ''s3'', phase := Planning, iteration := 4\<rparr>),
          writes := 2\<rparr>,
        Some (continuationResult succeedingDeps
          (scenarioState\<lparr>session_id := Some ''s3'', phase := Planning, iteration := 4\<rparr>)))
   \<and> spec_check (Suc (Suc (Suc 0))) succeedingDeps (Some ''s3'')
         (scenarioWorld\<lparr>stateFile := Some (scenarioState\<lparr>session_id := Some ''s3'', phase := Expansion\<rparr>)\<rparr>) =
       Some (scenarioWorld\<lparr>stateFile := Some (scenarioState\<lparr>session_id := Some ''s3'', phase := Execution, iteration := 4\<rparr>),
          writes := 3\<rparr>,
        Some (continuationResult succeedingDeps
          (scenarioState\<lparr>session_id := Some ''s3'', phase := Execution, iteration := 4\<rparr>)))
   \<and> result_phase (continuationResult succeedingDeps
          (scenarioState\<lparr>session_id := Some ''s3'', phase := Planning, iteration := 4\<rparr>)) = Planning
   \<and> result_phase (continuationResult succeedingDeps
          (scenarioState\<lparr>session_id := Some ''s3'', phase := Execution, iteration := 4\<rparr>)) = Execution
   \<and> spec_check (Suc (Suc (Suc 0))) succeedingDeps (Some ''s3'')
         (scenarioWorld\<lparr>stateFile := Some (scenarioState\<lparr>session_id := Some ''s3'', phase := Expansion\<rparr>)\<rparr>) \<noteq>
       Some (checkAutopilot succeedingDeps (Some ''s3'')
         (scenarioWorld\<lparr>stateFile := Some (scenarioState\<lparr>session_id := Some ''s3'', phase := Expansion\<rparr>)\<rparr>))"
proof -
  let ?S = "scenarioState\<lparr>session_id := Some ''s3'', phase := Expansion\<rparr>"
  let ?W = "scenarioWorld\<lparr>stateFile := Some ?S\<rparr>"
  have h1: "readAutopilotState ?W = Some ?S"
    by (simp add: readAutopilotState_def)
  have h2: "active ?S" and h3: "\<not> sessionMismatch ?S (Some ''s3'')"
    and h4: "iteration ?S < max_iterations ?S"
    and i: "iteration scenarioState = 3" and m: "max_iterations scenarioState = 50"
    and a: "active scenarioState"
    by (simp_all add: scenarioState_def sessionMismatch_def)
  have h5: "phase ?S = Expansion \<or> phase ?S = Planning"
    by simp
  have fw: "files ?W = scenarioFiles" "home ?W = ''/home/u''" and n: "writes scenarioWorld = 0"
    by (simp_all add: scenarioWorld_def)
  have sd: "signalDetected ?W (Some ''s3'') Expansion"
    using scenario_s3_detected [OF fw] by simp
  have h6: "signalDetected ?W (Some ''s3'') (phase ?S)"
    using sd by simp
  have h7: "getNextPhase (phase ?S) = Some Planning"
    by simp
  have code: "checkAutopilot succeedingDeps (Some ''s3'') ?W =
       (scenarioWorld\<lparr>stateFile := Some (scenarioState\<lparr>session_id := Some ''s3'', phase := Planning, iteration := 4\<rparr>),
          writes := 2\<rparr>,
        Some (continuationResult succeedingDeps
          (scenarioState\<lparr>session_id := Some ''s3'', phase := Planning, iteration := 4\<rparr>)))"
    using check_simple_edge [OF h1 h2 h3 h4 h5 h6 h7, of succeedingDeps]
    by (simp add: i n)
  have spec: "spec_check (Suc (Suc (Suc 0))) succeedingDeps (Some ''s3'') ?W =
       Some (scenarioWorld\<lparr>stateFile := Some (scenarioState\<lparr>session_id := Some ''s3'', phase := Execution, iteration := 4\<rparr>),
          writes := 3\<rparr>,
        Some (continuationResult succeedingDeps
          (scenarioState\<lparr>session_id := Some ''s3'', phase := Execution, iteration := 4\<rparr>)))"
    by (simp add: readAutopilotState_def transitionPhase_def writeAutopilotState_def
        sessionMismatch_def scenario_s3_detected generateContinuationPrompt_def Let_def
        i m a n scenarioWorld_def eval_nat_numeral)
  have ne: "spec_check (Suc (Suc (Suc 0))) succeedingDeps (Some ''s3'') ?W \<noteq>
       Some (checkAutopilot succeedingDeps (Some ''s3'') ?W)"
    unfolding code spec by (simp add: scenarioWorld_def)
  from h1 h2 h3 h4 sd code spec ne show ?thesis
    by (simp add: continuationResult_fields)
qed

end
